theory Spec2Isabelle
  imports Main
begin

section \<open>Python values: exceptions, strings, log records\<close>

text \<open>
  An exception is its class name and the text \<open>str(e)\<close>. Every exception of the model is
  a subclass of Python's \<open>Exception\<close>, so \<open>except Exception\<close> catches each of them.
  A function that can raise returns \<open>exn + 'a\<close>, with \<open>Inl\<close> for the raised exception.
\<close>

datatype exn = Exn (exn_class: string) (str_exn: string)

definition ValueError :: "string \<Rightarrow> exn" where
  "ValueError msg = Exn ''ValueError'' msg"

definition TypeError :: "string \<Rightarrow> exn" where
  "TypeError msg = Exn ''TypeError'' msg"

definition ValidationError :: "string \<Rightarrow> exn" where
  "ValidationError msg = Exn ''ValidationError'' msg"

datatype level = INFO | WARNING | ERROR

type_synonym log_record = "level \<times> string"

definition NL :: string where
  "NL = [CHR 0x0A]"

definition digit_char :: "nat \<Rightarrow> char" where
  "digit_char d = char_of (48 + d)"

text \<open>\<open>str(n)\<close> for a natural number: its decimal digits.\<close>

function str_nat :: "nat \<Rightarrow> string" where
  "str_nat n = (if n < 10 then [digit_char n] else str_nat (n div 10) @ [digit_char (n mod 10)])"
  by pat_completeness auto
termination
  by (relation "measure id") auto

declare str_nat.simps [simp del]

definition zfill :: "nat \<Rightarrow> string \<Rightarrow> string" where
  "zfill width s = replicate (width - length s) (CHR ''0'') @ s"

text \<open>
  The format specification \<open>:04d\<close>: decimal, padded with zeros to width 4, the sign
  (when there is one) counted in the width and written before the zeros.
\<close>

definition format_04d :: "int \<Rightarrow> string" where
  "format_04d n = (if n < 0 then ''-'' @ zfill 3 (str_nat (nat (- n))) else zfill 4 (str_nat (nat n)))"

text \<open>
  Reading a ticket number back: a decimal digit, and \<open>int(s)\<close> for a string of
  decimal digits.
\<close>

definition is_digit :: "char \<Rightarrow> bool" where
  "is_digit c = (48 \<le> (of_char c :: nat) \<and> (of_char c :: nat) \<le> 57)"

definition int_of_decimal :: "string \<Rightarrow> int" where
  "int_of_decimal digits = foldl (\<lambda>a c. 10 * a + (int (of_char c) - 48)) 0 digits"

text \<open>\<open>sep.join(xs)\<close>.\<close>

fun join :: "string \<Rightarrow> string list \<Rightarrow> string" where
  "join sep [] = []"
| "join sep [x] = x"
| "join sep (x # y # ys) = x @ sep @ join sep (y # ys)"

text \<open>
  \<open>str.lower()\<close>. A \<open>char\<close> is a code point below 256: the capitals among them are
  \<open>A\<close> to \<open>Z\<close> and \<open>0xC0\<close> to \<open>0xDE\<close> without the multiplication sign \<open>0xD7\<close>,
  and each has its small letter 32 places further on.
\<close>

definition lower_char :: "char \<Rightarrow> char" where
  "lower_char c =
     (let n = (of_char c :: nat)
      in if (65 \<le> n \<and> n \<le> 90) \<or> (192 \<le> n \<and> n \<le> 222 \<and> n \<noteq> 215)
         then char_of (n + 32) else c)"

definition lower :: "string \<Rightarrow> string" where
  "lower s = map lower_char s"

text \<open>\<open>p.rfind(c)\<close> for a one-character needle: the last index of \<open>c\<close>, or \<open>-1\<close>.\<close>

definition rfind :: "string \<Rightarrow> char \<Rightarrow> int" where
  "rfind p c = (case filter (\<lambda>i. p ! i = c) (rev [0..<length p]) of [] \<Rightarrow> - 1 | i # _ \<Rightarrow> int i)"

text \<open>
  \<open>os.path.splitext\<close> (POSIX): the extension starts at the last dot of the last path
  component, unless only dots stand before it in that component.
\<close>

definition splitext :: "string \<Rightarrow> string \<times> string" where
  "splitext p =
     (let sepIndex = rfind p (CHR ''/'');
          dotIndex = rfind p (CHR ''.'')
      in if dotIndex > sepIndex
            \<and> list_ex (\<lambda>i. p ! i \<noteq> CHR ''.'') [nat (sepIndex + 1)..<nat dotIndex]
         then (take (nat dotIndex) p, drop (nat dotIndex) p)
         else (p, []))"

section \<open>The collaborators of the knowledge base\<close>

record document =
  page_content :: string
  source :: string

datatype loader =
    TextLoader string
  | PyPDFLoader string
  | CSVLoader string
  | UnstructuredMarkdownLoader string

datatype message = HumanMessage string | AIMessage string

text \<open>
  What the language model asks for in one round: a final answer, or the call of a tool by
  name with its arguments (a dict from argument names to text).
\<close>

datatype agent_step =
    AgentFinish string
  | AgentAction string "(string \<times> string) list"

text \<open>
  The outside world, as far as the code reads it: the file system, the document parsers,
  the text splitter, the embedding service, the distance ranking of the vector index, the
  language model, the interpreter's string hash and the clock. \<open>'v\<close> is the type of
  embedding vectors.
\<close>

record 'v env =
  path_exists :: "string \<Rightarrow> bool"
  loader_load :: "loader \<Rightarrow> exn + document list"
  split_documents :: "nat \<Rightarrow> nat \<Rightarrow> document list \<Rightarrow> exn + document list"
  embed_documents :: "string list \<Rightarrow> exn + 'v list"
  embed_query :: "string \<Rightarrow> exn + 'v"
  nearest :: "'v \<Rightarrow> (document \<times> 'v) list \<Rightarrow> (document \<times> 'v) list"
  agent_plan :: "message list \<Rightarrow> string \<Rightarrow> (agent_step \<times> string) list \<Rightarrow> exn + agent_step"
  py_hash :: "string \<Rightarrow> int"
  strftime_now :: string

text \<open>
  The mutable state of the process: the records the loggers have emitted, the Chroma
  collection \<open>langchain\<close> (\<open>None\<close> once the client has been reset and the collection is
  gone), and the messages of the agent's \<open>ConversationBufferMemory\<close>.
\<close>

record 'v state =
  log_records :: "log_record list"
  collection :: "(document \<times> 'v) list option"
  chat_messages :: "message list"

definition logger_info :: "string \<Rightarrow> 'v state \<Rightarrow> 'v state" where
  "logger_info msg s = s\<lparr>log_records := log_records s @ [(INFO, msg)]\<rparr>"

definition logger_warning :: "string \<Rightarrow> 'v state \<Rightarrow> 'v state" where
  "logger_warning msg s = s\<lparr>log_records := log_records s @ [(WARNING, msg)]\<rparr>"

definition logger_error :: "string \<Rightarrow> 'v state \<Rightarrow> 'v state" where
  "logger_error msg s = s\<lparr>log_records := log_records s @ [(ERROR, msg)]\<rparr>"

subsection \<open>The Chroma client and the vector store wrapper\<close>

text \<open>
  \<open>chromadb.config.Settings\<close>: the two fields the code depends on, with the library's
  defaults. A field the constructor call does not name keeps its default; the process
  environment is the one the repository sets up, with no \<open>ALLOW_RESET\<close> variable to
  override it.
\<close>

record settings =
  anonymized_telemetry :: bool
  allow_reset :: bool

definition Settings_default :: settings where
  "Settings_default = \<lparr>anonymized_telemetry = True, allow_reset = False\<rparr>"

text \<open>
  \<open>Chroma.add_documents\<close>: embed the chunk texts, then write the chunks with their
  vectors to the collection. The embedding call can fail; the write fails when the
  collection no longer exists or the vectors do not match the chunks one to one.
\<close>

definition vector_store_add_documents ::
  "'v env \<Rightarrow> document list \<Rightarrow> 'v state \<Rightarrow> (exn + unit) \<times> 'v state" where
  "vector_store_add_documents env docs s =
     (case embed_documents env (map page_content docs) of
        Inl e \<Rightarrow> (Inl e, s)
      | Inr vectors \<Rightarrow>
          if length vectors \<noteq> length docs
          then (Inl (ValueError ''Unequal number of embeddings and documents''), s)
          else (case collection s of
                  None \<Rightarrow> (Inl (ValueError ''Collection langchain does not exist.''), s)
                | Some entries \<Rightarrow> (Inr (), s\<lparr>collection := Some (entries @ zip docs vectors)\<rparr>)))"

text \<open>
  \<open>Chroma.persist\<close>: raises only when the wrapper was built without a persist directory;
  with a persistent client the write above is already on disk.
\<close>

definition vector_store_persist :: "string option \<Rightarrow> 'v state \<Rightarrow> (exn + unit) \<times> 'v state" where
  "vector_store_persist dir s =
     (case dir of
        None \<Rightarrow> (Inl (ValueError ''You must specify a persist_directory on creation to persist the collection.''), s)
      | Some _ \<Rightarrow> (Inr (), s))"

text \<open>
  \<open>Chroma.similarity_search(query, k)\<close>: embed the query, then ask the collection for
  the \<open>k\<close> entries nearest to it. The index refuses \<open>k \<le> 0\<close> and a collection that is
  gone; with fewer than \<open>k\<close> entries it returns them all.
\<close>

definition vector_store_similarity_search ::
  "'v env \<Rightarrow> string \<Rightarrow> int \<Rightarrow> 'v state \<Rightarrow> (exn + document list) \<times> 'v state" where
  "vector_store_similarity_search env query k s =
     (case embed_query env query of
        Inl e \<Rightarrow> (Inl e, s)
      | Inr v \<Rightarrow>
          if k \<le> 0
          then (Inl (TypeError ''Number of requested results cannot be negative, or zero.''), s)
          else (case collection s of
                  None \<Rightarrow> (Inl (ValueError ''Collection langchain does not exist.''), s)
                | Some entries \<Rightarrow> (Inr (map fst (take (nat k) (nearest env v entries))), s)))"

text \<open>
  \<open>chroma_client.reset()\<close>: refused with a \<open>ValueError\<close> unless the client's settings
  allow it; otherwise every collection is deleted.
\<close>

definition chroma_client_reset :: "settings \<Rightarrow> 'v state \<Rightarrow> (exn + bool) \<times> 'v state" where
  "chroma_client_reset st s =
     (if \<not> allow_reset st
      then (Inl (ValueError ''Resetting is not allowed by this configuration (to enable it, set `allow_reset` to `True` in your Settings() or include `ALLOW_RESET=TRUE` in your environment variables)''), s)
      else (Inr True, s\<lparr>collection := None\<rparr>))"

text \<open>\<open>chroma_client.get_collection("langchain").count()\<close>.\<close>

definition chroma_client_count :: "'v state \<Rightarrow> (exn + nat) \<times> 'v state" where
  "chroma_client_count s =
     (case collection s of
        None \<Rightarrow> (Inl (ValueError ''Collection langchain does not exist.''), s)
      | Some entries \<Rightarrow> (Inr (length entries), s))"

section \<open>KnowledgeBaseManager\<close>

text \<open>
  The attributes \<open>__init__\<close> sets and no method assigns again: the persist directory,
  the splitter's window and overlap, and the settings the Chroma client was built with.
\<close>

record kb_manager =
  persist_directory :: string
  chunk_size :: nat
  chunk_overlap :: nat
  client_settings :: settings

text \<open>
  \<open>__init__\<close>: the splitter is built with window 500 and overlap 100, the client with
  \<open>Settings(anonymized_telemetry=False)\<close>, and the wrapper gets or creates the
  collection. Failures of the constructors it calls go to the caller and are not part of
  the operations below.
\<close>

definition KnowledgeBaseManager_init :: "string \<Rightarrow> 'v state \<Rightarrow> kb_manager \<times> 'v state" where
  "KnowledgeBaseManager_init dir s =
     (\<lparr>persist_directory = dir,
       chunk_size = 500,
       chunk_overlap = 100,
       client_settings = Settings_default\<lparr>anonymized_telemetry := False\<rparr>\<rparr>,
      s\<lparr>collection := Some (case collection s of None \<Rightarrow> [] | Some entries \<Rightarrow> entries)\<rparr>)"

text \<open>The \<open>if\<close>/\<open>elif\<close> chain of \<open>load_document\<close> that picks the parser.\<close>

definition select_loader :: "string \<Rightarrow> string \<Rightarrow> exn + loader" where
  "select_loader file_extension file_path =
     (if file_extension = ''.txt'' then Inr (TextLoader file_path)
      else if file_extension = ''.pdf'' then Inr (PyPDFLoader file_path)
      else if file_extension = ''.csv'' then Inr (CSVLoader file_path)
      else if file_extension = ''.md'' then Inr (UnstructuredMarkdownLoader file_path)
      else Inl (ValueError (''Unsupported file type: '' @ file_extension)))"

definition load_document ::
  "'v env \<Rightarrow> string \<Rightarrow> 'v state \<Rightarrow> (exn + document list) \<times> 'v state" where
  "load_document env file_path s =
     (let file_extension = lower (snd (splitext file_path)) in
      case (case select_loader file_extension file_path of
              Inl e \<Rightarrow> Inl e
            | Inr ldr \<Rightarrow> loader_load env ldr) of
        Inr documents \<Rightarrow>
          (Inr documents,
           logger_info (''Loaded '' @ str_nat (length documents) @ '' documents from '' @ file_path) s)
      | Inl e \<Rightarrow>
          (Inr [],
           logger_error (''Error loading document '' @ file_path @ '': '' @ str_exn e) s))"

definition process_documents ::
  "'v env \<Rightarrow> kb_manager \<Rightarrow> document list \<Rightarrow> 'v state \<Rightarrow> (exn + document list) \<times> 'v state" where
  "process_documents env kb documents s =
     (case split_documents env (chunk_size kb) (chunk_overlap kb) documents of
        Inr chunks \<Rightarrow>
          (Inr chunks,
           logger_info (''Split '' @ str_nat (length documents) @ '' documents into ''
                         @ str_nat (length chunks) @ '' chunks'') s)
      | Inl e \<Rightarrow>
          (Inr [], logger_error (''Error processing documents: '' @ str_exn e) s))"

text \<open>
  The \<open>for\<close> loop of \<open>add_documents\<close>, with \<open>all_chunks\<close> as accumulator. An exception
  of a step would leave the loop; the result type keeps that branch.
\<close>

fun add_documents_loop ::
  "'v env \<Rightarrow> kb_manager \<Rightarrow> string list \<Rightarrow> document list \<Rightarrow> 'v state
    \<Rightarrow> (exn + document list) \<times> 'v state" where
  "add_documents_loop env kb [] all_chunks s = (Inr all_chunks, s)"
| "add_documents_loop env kb (file_path # rest) all_chunks s =
     (if \<not> path_exists env file_path
      then add_documents_loop env kb rest all_chunks
             (logger_warning (''File not found: '' @ file_path) s)
      else (case load_document env file_path s of
              (Inl e, s1) \<Rightarrow> (Inl e, s1)
            | (Inr documents, s1) \<Rightarrow>
                if documents \<noteq> []
                then (case process_documents env kb documents s1 of
                        (Inl e, s2) \<Rightarrow> (Inl e, s2)
                      | (Inr chunks, s2) \<Rightarrow>
                          add_documents_loop env kb rest (all_chunks @ chunks) s2)
                else add_documents_loop env kb rest all_chunks s1))"

definition add_documents_body ::
  "'v env \<Rightarrow> kb_manager \<Rightarrow> string list \<Rightarrow> 'v state \<Rightarrow> (exn + bool) \<times> 'v state" where
  "add_documents_body env kb file_paths s =
     (case add_documents_loop env kb file_paths [] s of
        (Inl e, s1) \<Rightarrow> (Inl e, s1)
      | (Inr all_chunks, s1) \<Rightarrow>
          if all_chunks \<noteq> []
          then (case vector_store_add_documents env all_chunks s1 of
                  (Inl e, s2) \<Rightarrow> (Inl e, s2)
                | (Inr _, s2) \<Rightarrow>
                    (case vector_store_persist (Some (persist_directory kb)) s2 of
                       (Inl e, s3) \<Rightarrow> (Inl e, s3)
                     | (Inr _, s3) \<Rightarrow>
                         (Inr True,
                          logger_info (''Successfully added '' @ str_nat (length all_chunks)
                                        @ '' chunks to knowledge base'') s3)))
          else (Inr False, s1))"

definition add_documents ::
  "'v env \<Rightarrow> kb_manager \<Rightarrow> string list \<Rightarrow> 'v state \<Rightarrow> (exn + bool) \<times> 'v state" where
  "add_documents env kb file_paths s =
     (case add_documents_body env kb file_paths s of
        (Inr result, s1) \<Rightarrow> (Inr result, s1)
      | (Inl e, s1) \<Rightarrow> (Inr False, logger_error (''Error adding documents: '' @ str_exn e) s1))"

definition search ::
  "'v env \<Rightarrow> kb_manager \<Rightarrow> string \<Rightarrow> int \<Rightarrow> 'v state \<Rightarrow> (exn + string list) \<times> 'v state" where
  "search env kb query k s =
     (case vector_store_similarity_search env query k s of
        (Inr results, s1) \<Rightarrow> (Inr (map page_content results), s1)
      | (Inl e, s1) \<Rightarrow> (Inr [], logger_error (''Error searching knowledge base: '' @ str_exn e) s1))"

record collection_info =
  total_documents :: nat
  info_persist_directory :: string

definition get_collection_info ::
  "kb_manager \<Rightarrow> 'v state \<Rightarrow> (exn + collection_info) \<times> 'v state" where
  "get_collection_info kb s =
     (case chroma_client_count s of
        (Inr count, s1) \<Rightarrow>
          (Inr \<lparr>total_documents = count, info_persist_directory = persist_directory kb\<rparr>, s1)
      | (Inl e, s1) \<Rightarrow>
          (Inr \<lparr>total_documents = 0, info_persist_directory = persist_directory kb\<rparr>,
           logger_error (''Error getting collection info: '' @ str_exn e) s1))"

definition clear_knowledge_base ::
  "kb_manager \<Rightarrow> 'v state \<Rightarrow> (exn + bool) \<times> 'v state" where
  "clear_knowledge_base kb s =
     (case chroma_client_reset (client_settings kb) s of
        (Inr _, s1) \<Rightarrow> (Inr True, logger_info ''Knowledge base cleared successfully'' s1)
      | (Inl e, s1) \<Rightarrow> (Inr False, logger_error (''Error clearing knowledge base: '' @ str_exn e) s1))"

section \<open>CustomerSupportAgent\<close>

text \<open>
  A value of the configuration dict: text, an integer, or a float (carried as its
  \<open>repr\<close>; the code only passes it on).
\<close>

datatype pyval = PyStr string | PyInt int | PyFloat string

text \<open>\<open>d.get(key, default)\<close>.\<close>

definition dict_get :: "(string \<rightharpoonup> 'a) \<Rightarrow> string \<Rightarrow> 'a \<Rightarrow> 'a" where
  "dict_get d key dflt = (case d key of None \<Rightarrow> dflt | Some v \<Rightarrow> v)"

record agent =
  knowledge_base :: kb_manager
  config :: "string \<rightharpoonup> pyval"

subsection \<open>Session memory\<close>

definition add_user_message :: "string \<Rightarrow> 'v state \<Rightarrow> 'v state" where
  "add_user_message content s = s\<lparr>chat_messages := chat_messages s @ [HumanMessage content]\<rparr>"

definition add_ai_message :: "string \<Rightarrow> 'v state \<Rightarrow> 'v state" where
  "add_ai_message content s = s\<lparr>chat_messages := chat_messages s @ [AIMessage content]\<rparr>"

text \<open>
  \<open>ConversationBufferMemory.save_context\<close>: the memory attached to a chain records the
  chain's input as a human message and its output as an AI message.
\<close>

definition save_context :: "string \<Rightarrow> string \<Rightarrow> 'v state \<Rightarrow> 'v state" where
  "save_context input output s =
     s\<lparr>chat_messages := chat_messages s @ [HumanMessage input, AIMessage output]\<rparr>"

subsection \<open>The tools\<close>

definition search_knowledge_base ::
  "'v env \<Rightarrow> kb_manager \<Rightarrow> string \<Rightarrow> 'v state \<Rightarrow> (exn + string) \<times> 'v state" where
  "search_knowledge_base env kb query s =
     (case search env kb query 2 s of
        (Inr results, s1) \<Rightarrow>
          if results \<noteq> []
          then (Inr (''Found relevant information:'' @ NL @ join (NL @ NL) results), s1)
          else (Inr ''No relevant information found in the knowledge base.'', s1)
      | (Inl e, s1) \<Rightarrow>
          (Inr (''Error searching knowledge base: '' @ str_exn e),
           logger_error (''Error searching knowledge base: '' @ str_exn e) s1))"

definition get_customer_info :: "string \<Rightarrow> string" where
  "get_customer_info customer_id =
     ''Customer ID '' @ customer_id
       @ '': Basic customer information retrieved. For detailed info, please check the CRM system.''"

text \<open>
  \<open>priority\<close> has the default \<open>"medium"\<close>: \<open>None\<close> stands for a call that does not
  pass it.
\<close>

definition create_support_ticket :: "'v env \<Rightarrow> string \<Rightarrow> string option \<Rightarrow> string" where
  "create_support_ticket env issue priority_arg =
     (let priority = (case priority_arg of None \<Rightarrow> ''medium'' | Some p \<Rightarrow> p);
          ticket_id = ''TKT-'' @ format_04d (py_hash env issue mod 10000)
      in ''Support ticket created: '' @ ticket_id @ NL @ ''Issue: '' @ issue @ NL
           @ ''Priority: '' @ priority @ NL @ ''Status: Open'')"

definition escalate_issue :: "'v env \<Rightarrow> string \<Rightarrow> string \<Rightarrow> string" where
  "escalate_issue env issue reason =
     ''Issue escalated successfully.'' @ NL @ ''Issue: '' @ issue @ NL @ ''Reason: '' @ reason @ NL
       @ ''Escalation timestamp: '' @ strftime_now env"

definition provide_solution_steps :: "string \<Rightarrow> string" where
  "provide_solution_steps problem =
     ''Here are the steps to resolve: '' @ problem @ NL
       @ ''1. First, try the basic troubleshooting'' @ NL
       @ ''2. If that doesn'' @ [CHR 0x27] @ ''t work, check the advanced options'' @ NL
       @ ''3. Contact support if the issue persists''"

definition tool_names :: "string list" where
  "tool_names =
     [''search_knowledge_base'', ''get_customer_info'', ''create_support_ticket'',
      ''escalate_issue'', ''provide_solution_steps'']"

text \<open>
  An argument of a tool call, by name: an argument the tool's signature requires and the
  call lacks is a validation error, raised before the tool's body runs.
\<close>

definition tool_arg :: "(string \<times> string) list \<Rightarrow> string \<Rightarrow> exn + string" where
  "tool_arg tool_input name =
     (case map_of tool_input name of
        None \<Rightarrow> Inl (ValidationError (name @ '': field required''))
      | Some v \<Rightarrow> Inr v)"

text \<open>
  The executor runs the tool the model named, with the model's arguments. A name that is
  no tool's gives the model an observation that lists the tools.
\<close>

definition run_tool ::
  "'v env \<Rightarrow> kb_manager \<Rightarrow> string \<Rightarrow> (string \<times> string) list \<Rightarrow> 'v state
    \<Rightarrow> (exn + string) \<times> 'v state" where
  "run_tool env kb name tool_input s =
     (if name = ''search_knowledge_base'' then
        (case tool_arg tool_input ''query'' of
           Inl e \<Rightarrow> (Inl e, s)
         | Inr query \<Rightarrow> search_knowledge_base env kb query s)
      else if name = ''get_customer_info'' then
        (case tool_arg tool_input ''customer_id'' of
           Inl e \<Rightarrow> (Inl e, s)
         | Inr customer_id \<Rightarrow> (Inr (get_customer_info customer_id), s))
      else if name = ''create_support_ticket'' then
        (case tool_arg tool_input ''issue'' of
           Inl e \<Rightarrow> (Inl e, s)
         | Inr issue \<Rightarrow>
             (Inr (create_support_ticket env issue (map_of tool_input ''priority'')), s))
      else if name = ''escalate_issue'' then
        (case tool_arg tool_input ''issue'' of
           Inl e \<Rightarrow> (Inl e, s)
         | Inr issue \<Rightarrow>
             (case tool_arg tool_input ''reason'' of
                Inl e \<Rightarrow> (Inl e, s)
              | Inr reason \<Rightarrow> (Inr (escalate_issue env issue reason), s)))
      else if name = ''provide_solution_steps'' then
        (case tool_arg tool_input ''problem'' of
           Inl e \<Rightarrow> (Inl e, s)
         | Inr problem \<Rightarrow> (Inr (provide_solution_steps problem), s))
      else (Inr (name @ '' is not a valid tool, try one of ['' @ join '', '' tool_names @ ''].''), s))"

subsection \<open>The agent executor\<close>

text \<open>
  The executor's loop, as built in \<open>__init__\<close> (\<open>handle_parsing_errors=True\<close>, the
  library's cap on the number of rounds): each round asks the model for the next step
  given the chat history, the input and the steps so far. A final answer ends the loop; a
  tool call is run and its observation added to the steps; output of the model that does
  not parse becomes an observation too; any other exception of the model, and any
  exception of a tool, leaves the loop. When the rounds are used up the answer is the
  library's stop message.
\<close>

fun AgentExecutor_call ::
  "'v env \<Rightarrow> kb_manager \<Rightarrow> nat \<Rightarrow> message list \<Rightarrow> string \<Rightarrow> (agent_step \<times> string) list
    \<Rightarrow> 'v state \<Rightarrow> (exn + string) \<times> 'v state" where
  "AgentExecutor_call env kb 0 chat_history input steps s =
     (Inr ''Agent stopped due to iteration limit or time limit.'', s)"
| "AgentExecutor_call env kb (Suc n) chat_history input steps s =
     (case agent_plan env chat_history input steps of
        Inl e \<Rightarrow>
          if exn_class e = ''OutputParserException''
          then AgentExecutor_call env kb n chat_history input
                 (steps @ [(AgentAction ''_Exception'' [], ''Invalid or incomplete response'')]) s
          else (Inl e, s)
      | Inr (AgentFinish output) \<Rightarrow> (Inr output, s)
      | Inr (AgentAction name tool_input) \<Rightarrow>
          (case run_tool env kb name tool_input s of
             (Inl e, s1) \<Rightarrow> (Inl e, s1)
           | (Inr observation, s1) \<Rightarrow>
               AgentExecutor_call env kb n chat_history input
                 (steps @ [(AgentAction name tool_input, observation)]) s1))"

definition max_iterations :: nat where
  "max_iterations = 15"

text \<open>
  \<open>agent_executor.invoke\<close>: the chat history is read from the attached memory, the loop
  runs, and on success the memory saves the exchange before the response (the inputs and
  the output) is returned. An exception of the loop passes through and nothing is saved.
\<close>

definition AgentExecutor_invoke ::
  "'v env \<Rightarrow> kb_manager \<Rightarrow> string \<Rightarrow> 'v state \<Rightarrow> (exn + (string \<rightharpoonup> string)) \<times> 'v state" where
  "AgentExecutor_invoke env kb input s =
     (let chat_history = chat_messages s in
      case AgentExecutor_call env kb max_iterations chat_history input [] s of
        (Inl e, s1) \<Rightarrow> (Inl e, s1)
      | (Inr output, s1) \<Rightarrow>
          (Inr [''input'' \<mapsto> input, ''output'' \<mapsto> output], save_context input output s1))"

subsection \<open>The turn\<close>

definition process_message_body ::
  "'v env \<Rightarrow> agent \<Rightarrow> string \<Rightarrow> 'v state \<Rightarrow> (exn + string) \<times> 'v state" where
  "process_message_body env ag user_message s =
     (let s1 = add_user_message user_message s in
      case AgentExecutor_invoke env (knowledge_base ag) user_message s1 of
        (Inl e, s2) \<Rightarrow> (Inl e, s2)
      | (Inr response, s2) \<Rightarrow>
          (let ai_response =
                 dict_get response ''output''
                   (''I apologize, but I couldn'' @ [CHR 0x27] @ ''t process your request.'')
           in (Inr ai_response, add_ai_message ai_response s2)))"

definition error_response :: "exn \<Rightarrow> string" where
  "error_response e =
     ''I apologize, but I encountered an error while processing your request. Please try again or contact human support if the issue persists. Error: ''
       @ str_exn e"

definition process_message ::
  "'v env \<Rightarrow> agent \<Rightarrow> string \<Rightarrow> 'v state \<Rightarrow> (exn + string) \<times> 'v state" where
  "process_message env ag user_message s =
     (case process_message_body env ag user_message s of
        (Inr ai_response, s1) \<Rightarrow> (Inr ai_response, s1)
      | (Inl e, s1) \<Rightarrow>
          (Inr (error_response e),
           add_ai_message (error_response e)
             (logger_error (''Error processing message: '' @ str_exn e) s1)))"

definition get_conversation_history :: "'v state \<Rightarrow> message list" where
  "get_conversation_history s = chat_messages s"

definition clear_memory :: "'v state \<Rightarrow> 'v state" where
  "clear_memory s = logger_info ''Conversation memory cleared'' (s\<lparr>chat_messages := []\<rparr>)"

record agent_status =
  status_model :: pyval
  status_temperature :: pyval
  status_max_tokens :: pyval
  memory_length :: nat
  tools_available :: nat

definition get_agent_status :: "agent \<Rightarrow> 'v state \<Rightarrow> agent_status" where
  "get_agent_status ag s =
     \<lparr>status_model = dict_get (config ag) ''GEMINI_MODEL'' (PyStr ''gemini-1.5-flash''),
      status_temperature = dict_get (config ag) ''TEMPERATURE'' (PyFloat ''0.7''),
      status_max_tokens = dict_get (config ag) ''MAX_TOKENS'' (PyInt 500),
      memory_length = length (chat_messages s),
      tools_available = length tool_names\<rparr>"

section \<open>A concrete world for the examples\<close>

text \<open>
  A small world on which the examples below run: every path exists but \<open>missing.txt\<close>;
  a text file parses to one document, a PDF fails to parse, a CSV file is empty; the
  splitter returns its input; a text is embedded as its length; the model first searches
  the knowledge base for the user's input and then answers.
\<close>

definition demo_env :: "nat env" where
  "demo_env =
     \<lparr>path_exists = (\<lambda>p. p \<noteq> ''missing.txt''),
      loader_load = (\<lambda>ldr. case ldr of
          TextLoader p \<Rightarrow> Inr [\<lparr>page_content = ''Refunds are issued within 14 days.'', source = p\<rparr>]
        | PyPDFLoader p \<Rightarrow> Inl (Exn ''PdfReadError'' ''EOF marker not found'')
        | CSVLoader p \<Rightarrow> Inr []
        | UnstructuredMarkdownLoader p \<Rightarrow> Inr [\<lparr>page_content = ''Product guide'', source = p\<rparr>]),
      split_documents = (\<lambda>size overlap docs. Inr docs),
      embed_documents = (\<lambda>texts. Inr (map length texts)),
      embed_query = (\<lambda>query. Inr (length query)),
      nearest = (\<lambda>v entries. entries),
      agent_plan = (\<lambda>chat_history input steps. case steps of
          [] \<Rightarrow> Inr (AgentAction ''search_knowledge_base'' [(''query'', input)])
        | _ \<Rightarrow> Inr (AgentFinish ''Please contact our support team.'')),
      py_hash = (\<lambda>s. 123456789 - 7 * int (length s)),
      strftime_now = ''2024-01-01 09:00:00''\<rparr>"

text \<open>The same world with the embedding service down, and with the model down.\<close>

definition demo_env_embedding_down :: "nat env" where
  "demo_env_embedding_down =
     demo_env\<lparr>embed_documents := (\<lambda>texts. Inl (Exn ''ConnectionError'' ''embedding service unreachable''))\<rparr>"




definition demo_kb :: kb_manager where
  "demo_kb =
     fst (KnowledgeBaseManager_init ''./data/chroma_db''
            (\<lparr>log_records = [], collection = None, chat_messages = []\<rparr> :: nat state))"

definition demo_state :: "nat state" where
  "demo_state =
     snd (KnowledgeBaseManager_init ''./data/chroma_db''
            \<lparr>log_records = [], collection = None, chat_messages = []\<rparr>)"

definition demo_agent :: agent where
  "demo_agent = \<lparr>knowledge_base = demo_kb, config = Map.empty\<rparr>"

section \<open>Facts about the ingestion loop\<close>

lemma logger_as_update:
  "logger_info m s = s\<lparr>log_records := log_records s @ [(INFO, m)]\<rparr>"
  "logger_warning m s = s\<lparr>log_records := log_records s @ [(WARNING, m)]\<rparr>"
  "logger_error m s = s\<lparr>log_records := log_records s @ [(ERROR, m)]\<rparr>"
  by (simp_all add: logger_info_def logger_warning_def logger_error_def)

lemma load_document_returns:
  "\<exists>documents l. load_document env p s = (Inr documents, s\<lparr>log_records := log_records s @ l\<rparr>)"
  by (auto simp: load_document_def Let_def logger_as_update split: sum.splits)

lemma load_document_state_free:
  "fst (load_document env p s) = fst (load_document env p s')"
  by (auto simp: load_document_def Let_def split: sum.splits)

lemma process_documents_returns:
  "\<exists>chunks l. process_documents env kb ds s = (Inr chunks, s\<lparr>log_records := log_records s @ l\<rparr>)"
  by (auto simp: process_documents_def logger_as_update split: sum.splits)

lemma process_documents_state_free:
  "fst (process_documents env kb ds s) = fst (process_documents env kb ds s')"
  by (auto simp: process_documents_def split: sum.splits)

lemma add_documents_loop_returns:
  "\<exists>chunks l. add_documents_loop env kb ps acc s = (Inr (acc @ chunks), s\<lparr>log_records := log_records s @ l\<rparr>)"
proof (induction ps arbitrary: acc s)
  case Nil
  have "s = s\<lparr>log_records := log_records s @ []\<rparr>" by simp
  then show ?case by (metis add_documents_loop.simps(1) append_Nil2)
next
  case (Cons p ps)
  show ?case
  proof (cases "path_exists env p")
    case False
    from Cons.IH [of acc "logger_warning (''File not found: '' @ p) s"]
    show ?thesis using False by (auto simp: logger_as_update)
  next
    case True
    obtain ds l1 where ld: "load_document env p s = (Inr ds, s\<lparr>log_records := log_records s @ l1\<rparr>)"
      using load_document_returns by blast
    show ?thesis
    proof (cases "ds = []")
      case True
      from Cons.IH [of acc "s\<lparr>log_records := log_records s @ l1\<rparr>"]
      show ?thesis using \<open>path_exists env p\<close> ld True by auto
    next
      case False
      obtain cs l2 where pd: "process_documents env kb ds (s\<lparr>log_records := log_records s @ l1\<rparr>)
          = (Inr cs, s\<lparr>log_records := log_records s @ l1 @ l2\<rparr>)"
        using process_documents_returns [of env kb ds "s\<lparr>log_records := log_records s @ l1\<rparr>"] by auto
      from Cons.IH [of "acc @ cs" "s\<lparr>log_records := log_records s @ l1 @ l2\<rparr>"]
      obtain chunks l where "add_documents_loop env kb ps (acc @ cs) (s\<lparr>log_records := log_records s @ l1 @ l2\<rparr>)
         = (Inr ((acc @ cs) @ chunks), s\<lparr>log_records := log_records s @ l1 @ l2 @ l\<rparr>)" by auto
      then show ?thesis using \<open>path_exists env p\<close> ld False pd by auto
    qed
  qed
qed

lemma add_documents_loop_state_free:
  "fst (add_documents_loop env kb ps acc s) = fst (add_documents_loop env kb ps acc s')"
proof (induction ps arbitrary: acc s s')
  case Nil
  show ?case by simp
next
  case (Cons p ps)
  show ?case
  proof (cases "path_exists env p")
    case False
    then show ?thesis using Cons.IH by simp
  next
    case True
    obtain ds l1 where ld: "load_document env p s = (Inr ds, s\<lparr>log_records := log_records s @ l1\<rparr>)"
      using load_document_returns by blast
    obtain ds' l1' where ld': "load_document env p s' = (Inr ds', s'\<lparr>log_records := log_records s' @ l1'\<rparr>)"
      using load_document_returns by blast
    have eq: "ds' = ds"
      using load_document_state_free [of env p s s'] ld ld' by simp
    show ?thesis
    proof (cases "ds = []")
      case True
      then show ?thesis using \<open>path_exists env p\<close> ld ld' eq Cons.IH by simp
    next
      case False
      obtain cs l2 where pd: "process_documents env kb ds (s\<lparr>log_records := log_records s @ l1\<rparr>)
          = (Inr cs, s\<lparr>log_records := log_records s @ l1 @ l2\<rparr>)"
        using process_documents_returns [of env kb ds "s\<lparr>log_records := log_records s @ l1\<rparr>"] by auto
      obtain cs' l2' where pd': "process_documents env kb ds (s'\<lparr>log_records := log_records s' @ l1'\<rparr>)
          = (Inr cs', s'\<lparr>log_records := log_records s' @ l1' @ l2'\<rparr>)"
        using process_documents_returns [of env kb ds "s'\<lparr>log_records := log_records s' @ l1'\<rparr>"] by auto
      have eq2: "cs' = cs"
        using process_documents_state_free [of env kb ds "s\<lparr>log_records := log_records s @ l1\<rparr>"
            "s'\<lparr>log_records := log_records s' @ l1'\<rparr>"] pd pd' by simp
      show ?thesis using \<open>path_exists env p\<close> ld ld' eq False pd pd' eq2 Cons.IH by simp
    qed
  qed
qed

lemma add_documents_loop_append:
  "add_documents_loop env kb (xs @ ys) acc s =
     (case add_documents_loop env kb xs acc s of
        (Inl e, s1) \<Rightarrow> (Inl e, s1)
      | (Inr chunks, s1) \<Rightarrow> add_documents_loop env kb ys chunks s1)"
  by (induction xs arbitrary: acc s) (auto split: prod.splits sum.splits)



lemma add_documents_loop_missing:
  assumes "\<not> path_exists env p"
  shows "fst (add_documents_loop env kb (p # ys) acc s) = fst (add_documents_loop env kb ys acc s)"
  using assms add_documents_loop_state_free [of env kb ys acc "logger_warning (''File not found: '' @ p) s" s]
  by simp

lemma add_documents_loop_drop:
  assumes "\<And>acc s. fst (add_documents_loop env kb (p # ys) acc s) = fst (add_documents_loop env kb ys acc s)"
  shows "fst (add_documents_loop env kb (xs @ p # ys) acc s) = fst (add_documents_loop env kb (xs @ ys) acc s)"
proof -
  obtain c l where xs: "add_documents_loop env kb xs acc s = (Inr (acc @ c), s\<lparr>log_records := log_records s @ l\<rparr>)"
    using add_documents_loop_returns by blast
  show ?thesis
    using assms [of "acc @ c" "s\<lparr>log_records := log_records s @ l\<rparr>"]
    by (simp add: add_documents_loop_append xs)
qed

lemma vector_store_add_documents_log:
  "vector_store_add_documents env docs (s\<lparr>log_records := l\<rparr>) =
     (fst (vector_store_add_documents env docs s),
      (snd (vector_store_add_documents env docs s))\<lparr>log_records := l\<rparr>)"
  by (auto simp: vector_store_add_documents_def split: sum.splits option.splits)

lemma add_documents_unfold:
  assumes "add_documents_loop env kb file_paths [] s = (Inr all_chunks, s1)"
  shows "add_documents env kb file_paths s =
     (if all_chunks \<noteq> []
      then (case vector_store_add_documents env all_chunks s1 of
              (Inl e, s2) \<Rightarrow> (Inr False, logger_error (''Error adding documents: '' @ str_exn e) s2)
            | (Inr u, s2) \<Rightarrow>
                (Inr True, logger_info (''Successfully added '' @ str_nat (length all_chunks)
                                         @ '' chunks to knowledge base'') s2))
      else (Inr False, s1))"
  using assms
  by (auto simp: add_documents_def add_documents_body_def vector_store_persist_def
      split: prod.splits sum.splits)

lemma add_documents_result:
  assumes "fst (add_documents_loop env kb file_paths [] s) = Inr all_chunks"
  shows "fst (add_documents env kb file_paths s) =
           Inr (all_chunks \<noteq> [] \<and> fst (vector_store_add_documents env all_chunks s) = Inr ())"
    and "collection (snd (add_documents env kb file_paths s)) =
           (if all_chunks \<noteq> [] then collection (snd (vector_store_add_documents env all_chunks s))
            else collection s)"
proof -
  obtain c l where lp: "add_documents_loop env kb file_paths [] s
      = (Inr ([] @ c), s\<lparr>log_records := log_records s @ l\<rparr>)"
    using add_documents_loop_returns by blast
  with assms have c: "c = all_chunks" by simp
  note unf = add_documents_unfold [OF lp [unfolded c, simplified]]
  show "fst (add_documents env kb file_paths s) =
           Inr (all_chunks \<noteq> [] \<and> fst (vector_store_add_documents env all_chunks s) = Inr ())"
    by (auto simp: unf vector_store_add_documents_log split: prod.splits sum.splits)
  show "collection (snd (add_documents env kb file_paths s)) =
           (if all_chunks \<noteq> [] then collection (snd (vector_store_add_documents env all_chunks s))
            else collection s)"
    by (auto simp: unf vector_store_add_documents_log logger_as_update split: prod.splits sum.splits)
qed

lemma add_documents_loop_log_grows:
  "set (log_records s) \<subseteq> set (log_records (snd (add_documents_loop env kb ps acc s)))"
proof -
  obtain c l where "add_documents_loop env kb ps acc s = (Inr (acc @ c), s\<lparr>log_records := log_records s @ l\<rparr>)"
    using add_documents_loop_returns by blast
  then show ?thesis by simp
qed

lemma add_documents_loop_warns:
  assumes "p \<in> set ps" and "\<not> path_exists env p"
  shows "(WARNING, ''File not found: '' @ p) \<in> set (log_records (snd (add_documents_loop env kb ps acc s)))"
  using assms
proof (induction ps arbitrary: acc s)
  case Nil
  then show ?case by simp
next
  case (Cons q qs)
  show ?case
  proof (cases "q = p")
    case True
    have "(WARNING, ''File not found: '' @ p) \<in> set (log_records (logger_warning (''File not found: '' @ p) s))"
      by (simp add: logger_as_update)
    then show ?thesis
      using True Cons.prems(2)
        add_documents_loop_log_grows [of "logger_warning (''File not found: '' @ p) s" env kb qs acc]
      by auto
  next
    case False
    with Cons.prems have mem: "p \<in> set qs" by simp
    show ?thesis
    proof (cases "path_exists env q")
      case False
      then show ?thesis using Cons.IH [OF mem Cons.prems(2)] by simp
    next
      case True
      obtain ds l1 where ld: "load_document env q s = (Inr ds, s\<lparr>log_records := log_records s @ l1\<rparr>)"
        using load_document_returns by blast
      show ?thesis
      proof (cases "ds = []")
        case True
        then show ?thesis using \<open>path_exists env q\<close> ld Cons.IH [OF mem Cons.prems(2)] by simp
      next
        case False
        obtain cs l2 where pd: "process_documents env kb ds (s\<lparr>log_records := log_records s @ l1\<rparr>)
            = (Inr cs, s\<lparr>log_records := log_records s @ l1 @ l2\<rparr>)"
          using process_documents_returns [of env kb ds "s\<lparr>log_records := log_records s @ l1\<rparr>"] by auto
        show ?thesis using \<open>path_exists env q\<close> ld False pd Cons.IH [OF mem Cons.prems(2)] by simp
      qed
    qed
  qed
qed

lemma add_documents_log_grows:
  "set (log_records (snd (add_documents_loop env kb ps [] s)))
     \<subseteq> set (log_records (snd (add_documents env kb ps s)))"
proof -
  obtain c l where lp: "add_documents_loop env kb ps [] s = (Inr ([] @ c), s\<lparr>log_records := log_records s @ l\<rparr>)"
    using add_documents_loop_returns by blast
  show ?thesis
    by (auto simp: add_documents_unfold [OF lp [simplified]] lp vector_store_add_documents_def
        logger_as_update split: prod.splits sum.splits option.splits if_splits)
qed




lemma add_documents_logs_failure:
  assumes "fst (add_documents_loop env kb file_paths [] s) = Inr chunks"
    and "chunks \<noteq> []"
    and "fst (vector_store_add_documents env chunks s) = Inl e"
  shows "(ERROR, ''Error adding documents: '' @ str_exn e)
           \<in> set (log_records (snd (add_documents env kb file_paths s)))"
proof -
  obtain c l where lp: "add_documents_loop env kb file_paths [] s
      = (Inr ([] @ c), s\<lparr>log_records := log_records s @ l\<rparr>)"
    using add_documents_loop_returns by blast
  with assms(1) have c: "c = chunks" by simp
  note unf = add_documents_unfold [OF lp [unfolded c, simplified]]
  show ?thesis
    using assms(2,3)
    by (auto simp: unf vector_store_add_documents_log logger_as_update split: prod.splits sum.splits)
qed

section \<open>Facts about decimal strings\<close>

lemma of_char_digit_char: "d < 10 \<Longrightarrow> (of_char (digit_char d) :: nat) = 48 + d"
  by (simp add: digit_char_def)

lemma str_nat_digits: "list_all is_digit (str_nat n)"
proof (induction n rule: str_nat.induct)
  case (1 n)
  show ?case
  proof (cases "n < 10")
    case True
    then show ?thesis
      by (subst str_nat.simps) (simp add: is_digit_def of_char_digit_char)
  next
    case False
    have "n mod 10 < 10" by simp
    then have "is_digit (digit_char (n mod 10))"
      by (simp add: is_digit_def of_char_digit_char del: mod_less_divisor)
    with False "1.IH" show ?thesis
      by (subst str_nat.simps) simp
  qed
qed

lemma int_of_decimal_snoc:
  "int_of_decimal (ds @ [c]) = 10 * int_of_decimal ds + (int (of_char c) - 48)"
  by (simp add: int_of_decimal_def)

lemma int_of_decimal_str_nat: "int_of_decimal (str_nat n) = int n"
proof (induction n rule: str_nat.induct)
  case (1 n)
  show ?case
  proof (cases "n < 10")
    case True
    then show ?thesis
      by (subst str_nat.simps) (simp add: int_of_decimal_def of_char_digit_char)
  next
    case False
    have lt: "n mod 10 < 10" by simp
    have "int_of_decimal (str_nat n) = 10 * int_of_decimal (str_nat (n div 10)) + (int (of_char (digit_char (n mod 10))) - 48)"
      using False by (subst str_nat.simps) (simp add: int_of_decimal_snoc)
    also have "\<dots> = 10 * int (n div 10) + int (n mod 10)"
      using "1.IH" False by (simp add: of_char_digit_char [OF lt])
    also have "\<dots> = int n" by presburger
    finally show ?thesis .
  qed
qed

lemma int_of_decimal_zeros:
  "int_of_decimal (replicate k (CHR ''0'') @ ds) = int_of_decimal ds"
proof -
  have "\<And>a. foldl (\<lambda>a c. 10 * a + (int (of_char c) - 48)) 0 (replicate k (CHR ''0'')) = 0"
    by (induction k) simp_all
  then show ?thesis by (simp add: int_of_decimal_def)
qed

lemma length_str_nat: "n < 10 ^ k \<Longrightarrow> 0 < k \<Longrightarrow> length (str_nat n) \<le> k"
proof (induction n arbitrary: k rule: str_nat.induct)
  case (1 n)
  show ?case
  proof (cases "n < 10")
    case True
    then show ?thesis using "1.prems" by (subst str_nat.simps) simp
  next
    case False
    then obtain j where k: "k = Suc j" using "1.prems" by (cases k) auto
    have "j \<noteq> 0" using False "1.prems" k by (cases j) auto
    moreover have "n div 10 < 10 ^ j" using "1.prems" k by (simp add: less_mult_imp_div_less mult.commute)
    ultimately have "length (str_nat (n div 10)) \<le> j" using "1.IH" [OF False] by simp
    then show ?thesis using False k by (subst str_nat.simps) simp
  qed
qed

lemma format_04d_ticket:
  assumes "0 \<le> n" and "n < 10000"
  shows "length (format_04d n) = 4" and "list_all is_digit (format_04d n)"
    and "int_of_decimal (format_04d n) = n"
proof -
  have "nat n < 10 ^ 4" using assms by simp
  then have len: "length (str_nat (nat n)) \<le> 4" by (rule length_str_nat) simp
  show "length (format_04d n) = 4" using assms len by (simp add: format_04d_def zfill_def)
  have "is_digit (CHR ''0'')" by (simp add: is_digit_def)
  then show "list_all is_digit (format_04d n)"
    using assms str_nat_digits [of "nat n"] by (auto simp: format_04d_def zfill_def list_all_iff)
  show "int_of_decimal (format_04d n) = n"
    using assms by (simp add: format_04d_def zfill_def int_of_decimal_zeros int_of_decimal_str_nat)
qed

section \<open>Facts about the tools and the executor\<close>

lemma search_returns:
  "\<exists>l. search env kb query k s =
     (Inr (case fst (vector_store_similarity_search env query k s) of
             Inl e \<Rightarrow> [] | Inr results \<Rightarrow> map page_content results),
      s\<lparr>log_records := log_records s @ l\<rparr>)"
proof (cases "fst (vector_store_similarity_search env query k s)")
  case (Inl e)
  then have "search env kb query k s = (Inr [], s\<lparr>log_records := log_records s @ [(ERROR, ''Error searching knowledge base: '' @ str_exn e)]\<rparr>)"
    by (auto simp: search_def vector_store_similarity_search_def logger_as_update
        split: sum.splits option.splits if_splits)
  with Inl show ?thesis by auto
next
  case (Inr results)
  then have "search env kb query k s = (Inr (map page_content results), s\<lparr>log_records := log_records s @ []\<rparr>)"
    by (auto simp: search_def vector_store_similarity_search_def
        split: sum.splits option.splits if_splits)
  with Inr show ?thesis by (metis sum.case(2))
qed

lemma search_length:
  "fst (search env kb query k s) = Inr texts \<Longrightarrow> 0 < k \<Longrightarrow> int (length texts) \<le> k"
  by (auto simp: search_def vector_store_similarity_search_def split: sum.splits option.splits prod.splits if_splits)

lemma search_state_free:
  "collection s = collection s' \<Longrightarrow> fst (search env kb query k s) = fst (search env kb query k s')"
  by (auto simp: search_def vector_store_similarity_search_def split: sum.splits option.splits)

lemma search_knowledge_base_returns:
  "\<exists>texts l. fst (search env kb query 2 s) = Inr texts \<and>
     search_knowledge_base env kb query s =
       (Inr (if texts \<noteq> [] then ''Found relevant information:'' @ NL @ join (NL @ NL) texts
             else ''No relevant information found in the knowledge base.''),
        s\<lparr>log_records := log_records s @ l\<rparr>)"
proof -
  obtain l where "search env kb query 2 s =
     (Inr (case fst (vector_store_similarity_search env query 2 s) of
             Inl e \<Rightarrow> [] | Inr results \<Rightarrow> map page_content results),
      s\<lparr>log_records := log_records s @ l\<rparr>)"
    using search_returns by blast
  then show ?thesis by (auto simp: search_knowledge_base_def)
qed

lemma run_tool_chat_messages:
  "chat_messages (snd (run_tool env kb name tool_input s)) = chat_messages s"
proof -
  have "\<And>query. chat_messages (snd (search_knowledge_base env kb query s)) = chat_messages s"
  proof -
    fix query
    obtain texts l where "search_knowledge_base env kb query s =
       (Inr (if texts \<noteq> [] then ''Found relevant information:'' @ NL @ join (NL @ NL) texts
             else ''No relevant information found in the knowledge base.''),
        s\<lparr>log_records := log_records s @ l\<rparr>)"
      using search_knowledge_base_returns by blast
    then show "chat_messages (snd (search_knowledge_base env kb query s)) = chat_messages s" by simp
  qed
  then show ?thesis
    by (simp add: run_tool_def split: sum.splits)
qed

lemma AgentExecutor_call_chat_messages:
  "chat_messages (snd (AgentExecutor_call env kb n chat_history input steps s)) = chat_messages s"
proof (induction n arbitrary: steps s)
  case 0
  show ?case by simp
next
  case (Suc n)
  show ?case
  proof (cases "agent_plan env chat_history input steps")
    case (Inl e)
    then show ?thesis using Suc.IH by simp
  next
    case (Inr step)
    show ?thesis
    proof (cases step)
      case (AgentFinish out)
      with Inr show ?thesis by simp
    next
      case (AgentAction name tool_input)
      obtain r s1 where rt: "run_tool env kb name tool_input s = (r, s1)" by (cases "run_tool env kb name tool_input s")
      have cm: "chat_messages s1 = chat_messages s"
        using run_tool_chat_messages [of env kb name tool_input s] rt by simp
      show ?thesis
      proof (cases r)
        case (Inl e)
        with Inr AgentAction rt cm show ?thesis by simp
      next
        case (Inr observation)
        with \<open>agent_plan env chat_history input steps = Inr step\<close> AgentAction rt cm Suc.IH
        show ?thesis by simp
      qed
    qed
  qed
qed

lemma process_message_body_success:
  assumes "fst (process_message_body env ag user_message s) = Inr answer"
  shows "chat_messages (snd (process_message_body env ag user_message s)) =
           chat_messages s @ [HumanMessage user_message, HumanMessage user_message,
                              AIMessage answer, AIMessage answer]"
proof -
  let ?s1 = "add_user_message user_message s"
  obtain r s2 where call: "AgentExecutor_call env (knowledge_base ag) max_iterations
      (chat_messages ?s1) user_message [] ?s1 = (r, s2)"
    by (cases "AgentExecutor_call env (knowledge_base ag) max_iterations (chat_messages ?s1) user_message [] ?s1")
  have cm: "chat_messages s2 = chat_messages ?s1"
    using AgentExecutor_call_chat_messages [of env "knowledge_base ag" max_iterations
        "chat_messages ?s1" user_message "[]" ?s1] call by simp
  show ?thesis
  proof (cases r)
    case (Inl e)
    with call assms show ?thesis
      by (simp add: process_message_body_def AgentExecutor_invoke_def Let_def)
  next
    case (Inr out)
    with call assms have "out = answer"
      by (simp add: process_message_body_def AgentExecutor_invoke_def Let_def dict_get_def)
    with Inr call cm show ?thesis
      by (simp add: process_message_body_def AgentExecutor_invoke_def Let_def dict_get_def
          save_context_def add_ai_message_def add_user_message_def)
  qed
qed







section \<open>The turn of the conversation agent\<close>




text \<open>
  C9. A successful turn writes the user message and the answer to the session memory
  twice each: \<open>process_message\<close> adds the user message, the executor's attached memory
  saves the exchange (user message, answer), and \<open>process_message\<close> adds the answer. The
  memory grows by four messages, and \<open>memory_length\<close> of \<open>get_agent_status\<close> counts
  all four.
\<close>

theorem successful_turn_adds_four_messages:
  assumes "fst (process_message_body env ag user_message s) = Inr answer"
  shows "fst (process_message env ag user_message s) = Inr answer
       \<and> get_conversation_history (snd (process_message env ag user_message s)) =
           get_conversation_history s @ [HumanMessage user_message, HumanMessage user_message,
                                         AIMessage answer, AIMessage answer]
       \<and> memory_length (get_agent_status ag (snd (process_message env ag user_message s)))
           = memory_length (get_agent_status ag s) + 4"
  using assms process_message_body_success [OF assms]
  by (cases "process_message_body env ag user_message s")
    (simp add: process_message_def get_conversation_history_def get_agent_status_def)

theorem successful_turn_adds_four_messages_witness:
  "fst (process_message_body demo_env demo_agent ''How do refunds work?'' demo_state)
     = Inr ''Please contact our support team.''
   \<and> fst (process_message demo_env demo_agent ''How do refunds work?'' demo_state)
     = Inr ''Please contact our support team.''
   \<and> get_conversation_history
        (snd (process_message demo_env demo_agent ''How do refunds work?'' demo_state))
     = get_conversation_history demo_state
         @ [HumanMessage ''How do refunds work?'', HumanMessage ''How do refunds work?'',
            AIMessage ''Please contact our support team.'',
            AIMessage ''Please contact our support team.'']
   \<and> memory_length (get_agent_status demo_agent
        (snd (process_message demo_env demo_agent ''How do refunds work?'' demo_state)))
     = memory_length (get_agent_status demo_agent demo_state) + 4"
proof -
  have h: "fst (process_message_body demo_env demo_agent ''How do refunds work?'' demo_state)
     = Inr ''Please contact our support team.''"
    by code_simp
  from h successful_turn_adds_four_messages [OF h] show ?thesis by blast
qed

section \<open>The tools\<close>

text \<open>
  C5. The tool \<open>search_knowledge_base\<close> asks the knowledge base for two chunk texts
  and never raises. With no text found it returns the sentinel \<open>No relevant information
  found in the knowledge base.\<close>; with one text, the heading \<open>Found relevant
  information:\<close>, a newline and the text; with two, the heading, a newline, the first text,
  a blank line and the second text. A turn in which the model calls the tool with a query
  that matches nothing gets the sentinel as the observation, and when the model then
  answers, \<open>process_message\<close> returns that answer and records the turn in the history.
\<close>

theorem search_knowledge_base_tool:
  "(\<exists>texts. fst (search env kb query 2 s) = Inr texts
      \<and> texts = (case fst (vector_store_similarity_search env query 2 s) of
                   Inl e \<Rightarrow> []
                 | Inr results \<Rightarrow> map page_content results)
      \<and> ((texts = []
            \<and> fst (search_knowledge_base env kb query s)
                = Inr ''No relevant information found in the knowledge base.'')
          \<or> (\<exists>a. texts = [a]
            \<and> fst (search_knowledge_base env kb query s)
                = Inr (''Found relevant information:'' @ [CHR 0x0A] @ a))
          \<or> (\<exists>a b. texts = [a, b]
            \<and> fst (search_knowledge_base env kb query s)
                = Inr (''Found relevant information:'' @ [CHR 0x0A] @ a @ [CHR 0x0A, CHR 0x0A] @ b))))
   \<and> (agent_plan env (chat_messages s @ [HumanMessage user_message]) user_message []
          = Inr (AgentAction ''search_knowledge_base'' [(''query'', query)])
        \<and> fst (search env (knowledge_base ag) query 2 s) = Inr []
        \<and> agent_plan env (chat_messages s @ [HumanMessage user_message]) user_message
            [(AgentAction ''search_knowledge_base'' [(''query'', query)],
              ''No relevant information found in the knowledge base.'')]
          = Inr (AgentFinish answer)
      \<longrightarrow> fst (process_message env ag user_message s) = Inr answer
          \<and> get_conversation_history (snd (process_message env ag user_message s))
              = get_conversation_history s
                  @ [HumanMessage user_message, HumanMessage user_message,
                     AIMessage answer, AIMessage answer])"
proof -
  obtain texts l where t: "fst (search env kb query 2 s) = Inr texts"
    and skb: "search_knowledge_base env kb query s =
       (Inr (if texts \<noteq> [] then ''Found relevant information:'' @ NL @ join (NL @ NL) texts
             else ''No relevant information found in the knowledge base.''),
        s\<lparr>log_records := log_records s @ l\<rparr>)"
    using search_knowledge_base_returns by blast
  obtain l' where sr: "search env kb query 2 s =
     (Inr (case fst (vector_store_similarity_search env query 2 s) of
             Inl e \<Rightarrow> [] | Inr results \<Rightarrow> map page_content results),
      s\<lparr>log_records := log_records s @ l'\<rparr>)"
    using search_returns by blast
  have tx: "texts = (case fst (vector_store_similarity_search env query 2 s) of
                   Inl e \<Rightarrow> []
                 | Inr results \<Rightarrow> map page_content results)"
    using t sr by simp
  have "int (length texts) \<le> 2" using search_length [OF t] by simp
  then have len: "length texts \<le> 2" by simp
  have shape: "(texts = []
            \<and> fst (search_knowledge_base env kb query s)
                = Inr ''No relevant information found in the knowledge base.'')
          \<or> (\<exists>a. texts = [a]
            \<and> fst (search_knowledge_base env kb query s)
                = Inr (''Found relevant information:'' @ [CHR 0x0A] @ a))
          \<or> (\<exists>a b. texts = [a, b]
            \<and> fst (search_knowledge_base env kb query s)
                = Inr (''Found relevant information:'' @ [CHR 0x0A] @ a @ [CHR 0x0A, CHR 0x0A] @ b))"
  proof (cases texts)
    case Nil
    then show ?thesis using skb by simp
  next
    case (Cons a rest)
    show ?thesis
    proof (cases rest)
      case Nil
      with Cons skb show ?thesis by (simp add: NL_def)
    next
      case (Cons b rest')
      with \<open>texts = a # rest\<close> len have "rest' = []" by simp
      with Cons \<open>texts = a # rest\<close> skb show ?thesis by (simp add: NL_def)
    qed
  qed
  have a: "\<exists>texts. fst (search env kb query 2 s) = Inr texts
      \<and> texts = (case fst (vector_store_similarity_search env query 2 s) of
                   Inl e \<Rightarrow> []
                 | Inr results \<Rightarrow> map page_content results)
      \<and> ((texts = []
            \<and> fst (search_knowledge_base env kb query s)
                = Inr ''No relevant information found in the knowledge base.'')
          \<or> (\<exists>a. texts = [a]
            \<and> fst (search_knowledge_base env kb query s)
                = Inr (''Found relevant information:'' @ [CHR 0x0A] @ a))
          \<or> (\<exists>a b. texts = [a, b]
            \<and> fst (search_knowledge_base env kb query s)
                = Inr (''Found relevant information:'' @ [CHR 0x0A] @ a @ [CHR 0x0A, CHR 0x0A] @ b)))"
    using t tx shape by blast
  have b: "agent_plan env (chat_messages s @ [HumanMessage user_message]) user_message []
          = Inr (AgentAction ''search_knowledge_base'' [(''query'', query)])
        \<and> fst (search env (knowledge_base ag) query 2 s) = Inr []
        \<and> agent_plan env (chat_messages s @ [HumanMessage user_message]) user_message
            [(AgentAction ''search_knowledge_base'' [(''query'', query)],
              ''No relevant information found in the knowledge base.'')]
          = Inr (AgentFinish answer)
      \<longrightarrow> fst (process_message env ag user_message s) = Inr answer
          \<and> get_conversation_history (snd (process_message env ag user_message s))
              = get_conversation_history s
                  @ [HumanMessage user_message, HumanMessage user_message,
                     AIMessage answer, AIMessage answer]"
  proof
    assume h: "agent_plan env (chat_messages s @ [HumanMessage user_message]) user_message []
          = Inr (AgentAction ''search_knowledge_base'' [(''query'', query)])
        \<and> fst (search env (knowledge_base ag) query 2 s) = Inr []
        \<and> agent_plan env (chat_messages s @ [HumanMessage user_message]) user_message
            [(AgentAction ''search_knowledge_base'' [(''query'', query)],
              ''No relevant information found in the knowledge base.'')]
          = Inr (AgentFinish answer)"
    let ?s1 = "add_user_message user_message s"
    have "collection ?s1 = collection s" by (simp add: add_user_message_def)
    then have e: "fst (search env (knowledge_base ag) query 2 ?s1) = Inr []"
      using h search_state_free [of ?s1 s env "knowledge_base ag" query 2] by simp
    obtain texts' l' where t': "fst (search env (knowledge_base ag) query 2 ?s1) = Inr texts'"
      and skb': "search_knowledge_base env (knowledge_base ag) query ?s1 =
       (Inr (if texts' \<noteq> [] then ''Found relevant information:'' @ NL @ join (NL @ NL) texts'
             else ''No relevant information found in the knowledge base.''),
        ?s1\<lparr>log_records := log_records ?s1 @ l'\<rparr>)"
      using search_knowledge_base_returns by blast
    from e t' have "texts' = []" by simp
    with skb' have tool: "run_tool env (knowledge_base ag) ''search_knowledge_base'' [(''query'', query)] ?s1
        = (Inr ''No relevant information found in the knowledge base.'', ?s1\<lparr>log_records := log_records ?s1 @ l'\<rparr>)"
      by (simp add: run_tool_def tool_arg_def)
    have cm: "chat_messages ?s1 = chat_messages s @ [HumanMessage user_message]"
      by (simp add: add_user_message_def)
    have "AgentExecutor_call env (knowledge_base ag) max_iterations (chat_messages ?s1) user_message [] ?s1
        = (Inr answer, ?s1\<lparr>log_records := log_records ?s1 @ l'\<rparr>)"
      using h tool by (simp add: max_iterations_def cm eval_nat_numeral)
    then have body: "fst (process_message_body env ag user_message s) = Inr answer"
      by (simp add: process_message_body_def AgentExecutor_invoke_def Let_def dict_get_def)
    from process_message_body_success [OF body] body
    show "fst (process_message env ag user_message s) = Inr answer
          \<and> get_conversation_history (snd (process_message env ag user_message s))
              = get_conversation_history s
                  @ [HumanMessage user_message, HumanMessage user_message,
                     AIMessage answer, AIMessage answer]"
      by (cases "process_message_body env ag user_message s")
        (simp add: process_message_def get_conversation_history_def)
  qed
  from a b show ?thesis by blast
qed

theorem search_knowledge_base_tool_witness:
  "agent_plan demo_env (chat_messages demo_state @ [HumanMessage ''How do refunds work?''])
       ''How do refunds work?'' []
     = Inr (AgentAction ''search_knowledge_base'' [(''query'', ''How do refunds work?'')])
   \<and> fst (search demo_env (knowledge_base demo_agent) ''How do refunds work?'' 2 demo_state) = Inr []
   \<and> agent_plan demo_env (chat_messages demo_state @ [HumanMessage ''How do refunds work?''])
       ''How do refunds work?''
       [(AgentAction ''search_knowledge_base'' [(''query'', ''How do refunds work?'')],
         ''No relevant information found in the knowledge base.'')]
     = Inr (AgentFinish ''Please contact our support team.'')
   \<and> fst (process_message demo_env demo_agent ''How do refunds work?'' demo_state)
     = Inr ''Please contact our support team.''
   \<and> fst (search_knowledge_base demo_env demo_kb ''How do refunds work?'' demo_state)
     = Inr ''No relevant information found in the knowledge base.''
   \<and> fst (search_knowledge_base demo_env demo_kb ''refund''
        (snd (add_documents demo_env demo_kb [''faq.txt'', ''guide.md'', ''x.txt''] demo_state)))
     = Inr (''Found relevant information:'' @ [CHR 0x0A] @ ''Refunds are issued within 14 days.''
            @ [CHR 0x0A, CHR 0x0A] @ ''Product guide'')
   \<and> fst (search_knowledge_base demo_env demo_kb ''refund''
        (snd (add_documents demo_env demo_kb [''faq.txt''] demo_state)))
     = Inr (''Found relevant information:'' @ [CHR 0x0A] @ ''Refunds are issued within 14 days.'')"
proof -
  have h1: "agent_plan demo_env (chat_messages demo_state @ [HumanMessage ''How do refunds work?''])
       ''How do refunds work?'' []
     = Inr (AgentAction ''search_knowledge_base'' [(''query'', ''How do refunds work?'')])"
    by code_simp
  have h2: "fst (search demo_env (knowledge_base demo_agent) ''How do refunds work?'' 2 demo_state) = Inr []"
    by code_simp
  have h3: "agent_plan demo_env (chat_messages demo_state @ [HumanMessage ''How do refunds work?''])
       ''How do refunds work?''
       [(AgentAction ''search_knowledge_base'' [(''query'', ''How do refunds work?'')],
         ''No relevant information found in the knowledge base.'')]
     = Inr (AgentFinish ''Please contact our support team.'')"
    by code_simp
  have e0: "fst (search_knowledge_base demo_env demo_kb ''How do refunds work?'' demo_state)
     = Inr ''No relevant information found in the knowledge base.''"
    by code_simp
  have e2: "fst (search_knowledge_base demo_env demo_kb ''refund''
        (snd (add_documents demo_env demo_kb [''faq.txt'', ''guide.md'', ''x.txt''] demo_state)))
     = Inr (''Found relevant information:'' @ [CHR 0x0A] @ ''Refunds are issued within 14 days.''
            @ [CHR 0x0A, CHR 0x0A] @ ''Product guide'')"
    by code_simp
  have e1: "fst (search_knowledge_base demo_env demo_kb ''refund''
        (snd (add_documents demo_env demo_kb [''faq.txt''] demo_state)))
     = Inr (''Found relevant information:'' @ [CHR 0x0A] @ ''Refunds are issued within 14 days.'')"
    by code_simp
  from h1 h2 h3 search_knowledge_base_tool [where env = demo_env and ag = demo_agent
      and user_message = "''How do refunds work?''" and s = demo_state
      and query = "''How do refunds work?''" and answer = "''Please contact our support team.''"]
  have r: "fst (process_message demo_env demo_agent ''How do refunds work?'' demo_state)
     = Inr ''Please contact our support team.''"
    by blast
  from h1 h2 h3 r e0 e2 e1 show ?thesis by blast
qed

text \<open>
  C6. \<open>create_support_ticket\<close> returns the text with the ticket identifier, the issue,
  the priority (\<open>medium\<close> when none is given) and the status \<open>Open\<close>. The identifier is
  \<open>TKT-\<close> and four decimal digits that read as the hash of the issue text modulo 10000:
  it depends on the issue text alone, so two calls with the same issue text give the same
  identifier.
\<close>

theorem create_support_ticket_identifier:
  "create_support_ticket env issue priority_arg =
     ''Support ticket created: TKT-'' @ format_04d (py_hash env issue mod 10000) @ NL
       @ ''Issue: '' @ issue @ NL
       @ ''Priority: '' @ (case priority_arg of None \<Rightarrow> ''medium'' | Some p \<Rightarrow> p) @ NL
       @ ''Status: Open''
   \<and> length (format_04d (py_hash env issue mod 10000)) = 4
   \<and> list_all is_digit (format_04d (py_hash env issue mod 10000))
   \<and> int_of_decimal (format_04d (py_hash env issue mod 10000)) = py_hash env issue mod 10000
   \<and> run_tool env kb ''create_support_ticket'' [(''issue'', issue)] s
       = (Inr (create_support_ticket env issue None), s)
   \<and> run_tool env kb ''create_support_ticket'' [(''issue'', issue), (''priority'', priority)] s
       = (Inr (create_support_ticket env issue (Some priority)), s)"
proof -
  have r: "0 \<le> py_hash env issue mod 10000" "py_hash env issue mod 10000 < 10000" by simp_all
  have a: "create_support_ticket env issue priority_arg =
     ''Support ticket created: TKT-'' @ format_04d (py_hash env issue mod 10000) @ NL
       @ ''Issue: '' @ issue @ NL
       @ ''Priority: '' @ (case priority_arg of None \<Rightarrow> ''medium'' | Some p \<Rightarrow> p) @ NL
       @ ''Status: Open''"
    by (simp add: create_support_ticket_def)
  have b: "run_tool env kb ''create_support_ticket'' [(''issue'', issue)] s
       = (Inr (create_support_ticket env issue None), s)"
    by (simp add: run_tool_def tool_arg_def)
  have c: "run_tool env kb ''create_support_ticket'' [(''issue'', issue), (''priority'', priority)] s
       = (Inr (create_support_ticket env issue (Some priority)), s)"
    by (simp add: run_tool_def tool_arg_def)
  from a b c format_04d_ticket [OF r] show ?thesis by blast
qed

section \<open>The knowledge base\<close>

text \<open>
  C10. \<open>load_document\<close> and \<open>process_documents\<close> never raise: each returns a list,
  the empty list when the extension is unsupported, the parser fails or the splitter
  fails. So the loop of \<open>add_documents\<close> over the files never leaves by an exception.
\<close>

theorem load_and_process_total:
  "fst (load_document env file_path s) =
     Inr (case select_loader (lower (snd (splitext file_path))) file_path of
            Inl e \<Rightarrow> []
          | Inr ldr \<Rightarrow> (case loader_load env ldr of Inl e \<Rightarrow> [] | Inr documents \<Rightarrow> documents))
   \<and> fst (process_documents env kb documents s) =
     Inr (case split_documents env (chunk_size kb) (chunk_overlap kb) documents of
            Inl e \<Rightarrow> []
          | Inr chunks \<Rightarrow> chunks)
   \<and> (\<exists>all_chunks. fst (add_documents_loop env kb file_paths acc s) = Inr all_chunks)"
proof -
  have a: "fst (load_document env file_path s) =
     Inr (case select_loader (lower (snd (splitext file_path))) file_path of
            Inl e \<Rightarrow> []
          | Inr ldr \<Rightarrow> (case loader_load env ldr of Inl e \<Rightarrow> [] | Inr documents \<Rightarrow> documents))"
    by (simp add: load_document_def Let_def split: sum.splits)
  have b: "fst (process_documents env kb documents s) =
     Inr (case split_documents env (chunk_size kb) (chunk_overlap kb) documents of
            Inl e \<Rightarrow> []
          | Inr chunks \<Rightarrow> chunks)"
    by (simp add: process_documents_def split: sum.splits)
  obtain c l where "add_documents_loop env kb file_paths acc s
      = (Inr (acc @ c), s\<lparr>log_records := log_records s @ l\<rparr>)"
    using add_documents_loop_returns by blast
  then have c: "\<exists>all_chunks. fst (add_documents_loop env kb file_paths acc s) = Inr all_chunks"
    by simp
  from a b c show ?thesis by blast
qed



text \<open>
  C2, as the code has it. \<open>add_documents\<close> never raises. It returns true exactly when
  at least one chunk was gathered and the write of the chunks to the vector store raised
  nothing; when the write raises, the error is logged. \<open>add_documents([])\<close> returns false
  and changes nothing. A missing path is skipped with the warning \<open>File not found\<close> in
  the log, and the result is that of the batch without it.
\<close>

theorem add_documents_true_iff:
  "(\<exists>all_chunks. fst (add_documents_loop env kb file_paths [] s) = Inr all_chunks
      \<and> fst (add_documents env kb file_paths s)
          = Inr (all_chunks \<noteq> [] \<and> fst (vector_store_add_documents env all_chunks s) = Inr ()))
   \<and> add_documents env kb [] s = (Inr False, s)
   \<and> (p \<in> set file_paths \<and> \<not> path_exists env p \<longrightarrow>
        (WARNING, ''File not found: '' @ p) \<in> set (log_records (snd (add_documents env kb file_paths s))))
   \<and> (\<not> path_exists env p \<longrightarrow>
        fst (add_documents env kb (before @ p # after) s) = fst (add_documents env kb (before @ after) s))
   \<and> (fst (add_documents_loop env kb file_paths [] s) = Inr chunks \<and> chunks \<noteq> []
        \<and> fst (vector_store_add_documents env chunks s) = Inl e \<longrightarrow>
        (ERROR, ''Error adding documents: '' @ str_exn e)
          \<in> set (log_records (snd (add_documents env kb file_paths s))))"
proof -
  obtain c l where "add_documents_loop env kb file_paths [] s
      = (Inr ([] @ c), s\<lparr>log_records := log_records s @ l\<rparr>)"
    using add_documents_loop_returns by blast
  then have c: "fst (add_documents_loop env kb file_paths [] s) = Inr c" by simp
  have a: "\<exists>all_chunks. fst (add_documents_loop env kb file_paths [] s) = Inr all_chunks
      \<and> fst (add_documents env kb file_paths s)
          = Inr (all_chunks \<noteq> [] \<and> fst (vector_store_add_documents env all_chunks s) = Inr ())"
    using c add_documents_result(1) [OF c] by blast
  have b: "add_documents env kb [] s = (Inr False, s)"
    by (simp add: add_documents_def add_documents_body_def)
  have w: "p \<in> set file_paths \<and> \<not> path_exists env p \<longrightarrow>
        (WARNING, ''File not found: '' @ p) \<in> set (log_records (snd (add_documents env kb file_paths s)))"
    using add_documents_loop_warns [of p file_paths env kb "[]" s]
      add_documents_log_grows [of env kb file_paths s] by blast
  have d: "\<not> path_exists env p \<longrightarrow>
        fst (add_documents env kb (before @ p # after) s) = fst (add_documents env kb (before @ after) s)"
  proof
    assume np: "\<not> path_exists env p"
    have lp: "fst (add_documents_loop env kb (before @ p # after) [] s)
           = fst (add_documents_loop env kb (before @ after) [] s)"
      by (rule add_documents_loop_drop) (rule add_documents_loop_missing [OF np])
    obtain c' l' where "add_documents_loop env kb (before @ after) [] s
        = (Inr ([] @ c'), s\<lparr>log_records := log_records s @ l'\<rparr>)"
      using add_documents_loop_returns by blast
    then have c2: "fst (add_documents_loop env kb (before @ after) [] s) = Inr c'" by simp
    with lp have c1: "fst (add_documents_loop env kb (before @ p # after) [] s) = Inr c'" by simp
    show "fst (add_documents env kb (before @ p # after) s) = fst (add_documents env kb (before @ after) s)"
      by (simp add: add_documents_result(1) [OF c1] add_documents_result(1) [OF c2])
  qed
  have f: "fst (add_documents_loop env kb file_paths [] s) = Inr chunks \<and> chunks \<noteq> []
        \<and> fst (vector_store_add_documents env chunks s) = Inl e \<longrightarrow>
        (ERROR, ''Error adding documents: '' @ str_exn e)
          \<in> set (log_records (snd (add_documents env kb file_paths s)))"
    using add_documents_logs_failure [of env kb file_paths s chunks e] by blast
  from a b w d f show ?thesis by blast
qed

theorem add_documents_true_iff_witness:
  "''missing.txt'' \<in> set [''faq.txt'', ''missing.txt'']
   \<and> \<not> path_exists demo_env ''missing.txt''
   \<and> (WARNING, ''File not found: '' @ ''missing.txt'')
       \<in> set (log_records (snd (add_documents demo_env demo_kb [''faq.txt'', ''missing.txt''] demo_state)))
   \<and> fst (add_documents demo_env demo_kb ([''faq.txt''] @ ''missing.txt'' # []) demo_state)
       = fst (add_documents demo_env demo_kb ([''faq.txt''] @ []) demo_state)
   \<and> fst (add_documents demo_env demo_kb [''faq.txt'', ''missing.txt''] demo_state) = Inr True
   \<and> fst (add_documents_loop demo_env_embedding_down demo_kb [''faq.txt'', ''missing.txt''] [] demo_state)
       = Inr [\<lparr>page_content = ''Refunds are issued within 14 days.'', source = ''faq.txt''\<rparr>]
   \<and> fst (vector_store_add_documents demo_env_embedding_down
            [\<lparr>page_content = ''Refunds are issued within 14 days.'', source = ''faq.txt''\<rparr>] demo_state)
       = Inl (Exn ''ConnectionError'' ''embedding service unreachable'')
   \<and> (ERROR, ''Error adding documents: '' @ str_exn (Exn ''ConnectionError'' ''embedding service unreachable''))
       \<in> set (log_records (snd (add_documents demo_env_embedding_down demo_kb
                                   [''faq.txt'', ''missing.txt''] demo_state)))"
proof -
  let ?chunks = "[\<lparr>page_content = ''Refunds are issued within 14 days.'', source = ''faq.txt''\<rparr>]"
  let ?e = "Exn ''ConnectionError'' ''embedding service unreachable''"
  have h1: "''missing.txt'' \<in> set [''faq.txt'', ''missing.txt'']" by simp
  have h2: "\<not> path_exists demo_env ''missing.txt''" by code_simp
  have r: "fst (add_documents demo_env demo_kb [''faq.txt'', ''missing.txt''] demo_state) = Inr True"
    by code_simp
  have g: "fst (add_documents_loop demo_env_embedding_down demo_kb [''faq.txt'', ''missing.txt''] [] demo_state)
       = Inr ?chunks"
    by code_simp
  have n: "?chunks \<noteq> []" by simp
  have v: "fst (vector_store_add_documents demo_env_embedding_down ?chunks demo_state) = Inl ?e"
    by code_simp
  note t1 = add_documents_true_iff [where env = demo_env and kb = demo_kb and s = demo_state
      and p = "''missing.txt''" and file_paths = "[''faq.txt'', ''missing.txt'']"
      and before = "[''faq.txt'']" and after = "[]"]
  note t2 = add_documents_true_iff [where env = demo_env_embedding_down and kb = demo_kb
      and s = demo_state and file_paths = "[''faq.txt'', ''missing.txt'']"
      and chunks = ?chunks and e = ?e]
  from t1 h1 h2 have w: "(WARNING, ''File not found: '' @ ''missing.txt'')
       \<in> set (log_records (snd (add_documents demo_env demo_kb [''faq.txt'', ''missing.txt''] demo_state)))
     \<and> fst (add_documents demo_env demo_kb ([''faq.txt''] @ ''missing.txt'' # []) demo_state)
       = fst (add_documents demo_env demo_kb ([''faq.txt''] @ []) demo_state)"
    by blast
  from t2 g n v have el: "(ERROR, ''Error adding documents: '' @ str_exn ?e)
       \<in> set (log_records (snd (add_documents demo_env_embedding_down demo_kb
                                   [''faq.txt'', ''missing.txt''] demo_state)))"
    by blast
  from h1 h2 w r g v el show ?thesis by blast
qed

text \<open>
  C2 as stated fails: with the embedding service down, the batch of one valid and one
  missing path gathers a chunk and \<open>add_documents\<close> returns false.
\<close>

theorem add_documents_chunks_but_false:
  "fst (add_documents_loop demo_env_embedding_down demo_kb [''faq.txt'', ''missing.txt''] [] demo_state)
     = Inr [\<lparr>page_content = ''Refunds are issued within 14 days.'', source = ''faq.txt''\<rparr>]
   \<and> fst (add_documents demo_env_embedding_down demo_kb [''faq.txt'', ''missing.txt''] demo_state)
     = Inr False"
  by code_simp

text \<open>
  C3. For a positive \<open>k\<close>, \<open>search\<close> never raises and returns at most \<open>k\<close> chunk texts:
  the texts of the documents the vector store found, in its order, or the empty list when
  the vector store raised an exception.
\<close>

theorem search_bounded_and_total:
  assumes "0 < k"
  shows "fst (search env kb query k s) =
           Inr (case fst (vector_store_similarity_search env query k s) of
                  Inl e \<Rightarrow> []
                | Inr results \<Rightarrow> map page_content results)
       \<and> (\<exists>texts. fst (search env kb query k s) = Inr texts \<and> int (length texts) \<le> k)"
  using assms
  by (auto simp: search_def vector_store_similarity_search_def split: sum.splits option.splits prod.splits)

theorem search_bounded_and_total_witness:
  "(0::int) < 2
   \<and> fst (search demo_env demo_kb ''refund'' 2
        (snd (add_documents demo_env demo_kb [''faq.txt'', ''guide.md'', ''x.txt''] demo_state)))
     = Inr [''Refunds are issued within 14 days.'', ''Product guide'']
   \<and> (\<exists>texts. fst (search demo_env demo_kb ''refund'' 2
        (snd (add_documents demo_env demo_kb [''faq.txt'', ''guide.md'', ''x.txt''] demo_state)))
          = Inr texts \<and> int (length texts) \<le> 2)"
proof -
  have h: "(0::int) < 2" by simp
  have r: "fst (search demo_env demo_kb ''refund'' 2
        (snd (add_documents demo_env demo_kb [''faq.txt'', ''guide.md'', ''x.txt''] demo_state)))
     = Inr [''Refunds are issued within 14 days.'', ''Product guide'']"
    by code_simp
  from h r search_bounded_and_total [OF h, where env = demo_env and kb = demo_kb
      and query = "''refund''"
      and s = "snd (add_documents demo_env demo_kb [''faq.txt'', ''guide.md'', ''x.txt''] demo_state)"]
  show ?thesis by blast
qed

text \<open>
  C4, what the code does. The manager's client is built with
  \<open>Settings(anonymized_telemetry=False)\<close>, so \<open>allow_reset\<close> keeps its default and the
  client refuses \<open>reset()\<close>: \<open>clear_knowledge_base\<close> catches the exception, returns
  false and leaves the collection as it was, for every manager that \<open>__init__\<close> builds
  (in an environment that does not set \<open>ALLOW_RESET\<close>) and every state of the store.
\<close>

theorem clear_knowledge_base_refused:
  "fst (clear_knowledge_base (fst (KnowledgeBaseManager_init dir s0)) s) = Inr False
   \<and> collection (snd (clear_knowledge_base (fst (KnowledgeBaseManager_init dir s0)) s)) = collection s"
  by (simp add: clear_knowledge_base_def KnowledgeBaseManager_init_def chroma_client_reset_def
      Settings_default_def logger_error_def)

text \<open>
  \<open>process_documents\<close> of a manager built by \<open>__init__\<close> hands the documents to the
  splitter with window 500 and overlap 100 and reads nothing of the state.
\<close>

lemma process_documents_window:
  "fst (process_documents env (fst (KnowledgeBaseManager_init dir s0)) documents s)
     = Inr (case split_documents env 500 100 documents of Inl e \<Rightarrow> [] | Inr chunks \<Rightarrow> chunks)"
  by (simp add: process_documents_def KnowledgeBaseManager_init_def split: sum.splits)

end
